theory Spec2Isabelle
  imports Complex_Main "HOL-Library.Word" "HOL-Library.AList"
begin

unbundle bit_operations_syntax

section \<open>JavaScript strings\<close>

text \<open>
  \<^verbatim>\<open>src/Request.ts\<close> is TypeScript running on Node. A JavaScript string is a sequence
  of UTF-16 code units, so strings are lists of 16-bit words here. \<open>js\<close> embeds an
  ASCII literal of the source text.
\<close>

type_synonym byte = "8 word"
type_synonym u32 = "32 word"
type_synonym jschar = "16 word"
type_synonym jsstring = "jschar list"

definition js :: "string \<Rightarrow> jsstring" where
  "js s = map of_char s"

definition is_high_surrogate :: "jschar \<Rightarrow> bool" where
  "is_high_surrogate u = (0xD800 \<le> u \<and> u \<le> 0xDBFF)"

definition is_low_surrogate :: "jschar \<Rightarrow> bool" where
  "is_low_surrogate u = (0xDC00 \<le> u \<and> u \<le> 0xDFFF)"

definition pair_code_point :: "jschar \<Rightarrow> jschar \<Rightarrow> nat" where
  "pair_code_point hi lo = 0x10000 + (unat hi - 0xD800) * 0x400 + (unat lo - 0xDC00)"

subsection \<open>UTF-8 encoding of a string (what \<^verbatim>\<open>Hmac.update(string)\<close> hashes)\<close>

definition utf8_code_point :: "nat \<Rightarrow> byte list" where
  "utf8_code_point cp =
     (if cp < 0x80 then [of_nat cp]
      else if cp < 0x800 then [of_nat (0xC0 + cp div 0x40), of_nat (0x80 + cp mod 0x40)]
      else if cp < 0x10000 then
        [of_nat (0xE0 + cp div 0x1000), of_nat (0x80 + cp div 0x40 mod 0x40),
         of_nat (0x80 + cp mod 0x40)]
      else
        [of_nat (0xF0 + cp div 0x40000), of_nat (0x80 + cp div 0x1000 mod 0x40),
         of_nat (0x80 + cp div 0x40 mod 0x40), of_nat (0x80 + cp mod 0x40)])"

text \<open>A surrogate that is not part of a pair is encoded as U+FFFD (EF BF BD).\<close>

definition utf8_unit :: "jschar \<Rightarrow> byte list" where
  "utf8_unit u =
     (if is_high_surrogate u \<or> is_low_surrogate u then [0xEF, 0xBF, 0xBD]
      else utf8_code_point (unat u))"

fun utf8_encode :: "jsstring \<Rightarrow> byte list" where
  "utf8_encode [] = []"
| "utf8_encode [u] = utf8_unit u"
| "utf8_encode (u # v # us) =
     (if is_high_surrogate u \<and> is_low_surrogate v
      then utf8_code_point (pair_code_point u v) @ utf8_encode us
      else utf8_unit u @ utf8_encode (v # us))"

section \<open>Node's \<^verbatim>\<open>crypto.createHmac('sha256', key)\<close>\<close>

subsection \<open>SHA-256 (FIPS 180-4)\<close>

type_synonym hstate = "u32 \<times> u32 \<times> u32 \<times> u32 \<times> u32 \<times> u32 \<times> u32 \<times> u32"

definition rotr :: "nat \<Rightarrow> u32 \<Rightarrow> u32" where
  "rotr n x = drop_bit n x OR push_bit (32 - n) x"

definition Ch :: "u32 \<Rightarrow> u32 \<Rightarrow> u32 \<Rightarrow> u32" where
  "Ch x y z = (x AND y) XOR (NOT x AND z)"

definition Maj :: "u32 \<Rightarrow> u32 \<Rightarrow> u32 \<Rightarrow> u32" where
  "Maj x y z = (x AND y) XOR (x AND z) XOR (y AND z)"

definition Sigma0 :: "u32 \<Rightarrow> u32" where
  "Sigma0 x = rotr 2 x XOR rotr 13 x XOR rotr 22 x"

definition Sigma1 :: "u32 \<Rightarrow> u32" where
  "Sigma1 x = rotr 6 x XOR rotr 11 x XOR rotr 25 x"

definition sigma0 :: "u32 \<Rightarrow> u32" where
  "sigma0 x = rotr 7 x XOR rotr 18 x XOR drop_bit 3 x"

definition sigma1 :: "u32 \<Rightarrow> u32" where
  "sigma1 x = rotr 17 x XOR rotr 19 x XOR drop_bit 10 x"

definition K256 :: "u32 list" where
  "K256 =
   [0x428A2F98, 0x71374491, 0xB5C0FBCF, 0xE9B5DBA5, 0x3956C25B, 0x59F111F1, 0x923F82A4, 0xAB1C5ED5,
    0xD807AA98, 0x12835B01, 0x243185BE, 0x550C7DC3, 0x72BE5D74, 0x80DEB1FE, 0x9BDC06A7, 0xC19BF174,
    0xE49B69C1, 0xEFBE4786, 0x0FC19DC6, 0x240CA1CC, 0x2DE92C6F, 0x4A7484AA, 0x5CB0A9DC, 0x76F988DA,
    0x983E5152, 0xA831C66D, 0xB00327C8, 0xBF597FC7, 0xC6E00BF3, 0xD5A79147, 0x06CA6351, 0x14292967,
    0x27B70A85, 0x2E1B2138, 0x4D2C6DFC, 0x53380D13, 0x650A7354, 0x766A0ABB, 0x81C2C92E, 0x92722C85,
    0xA2BFE8A1, 0xA81A664B, 0xC24B8B70, 0xC76C51A3, 0xD192E819, 0xD6990624, 0xF40E3585, 0x106AA070,
    0x19A4C116, 0x1E376C08, 0x2748774C, 0x34B0BCB5, 0x391C0CB3, 0x4ED8AA4A, 0x5B9CCA4F, 0x682E6FF3,
    0x748F82EE, 0x78A5636F, 0x84C87814, 0x8CC70208, 0x90BEFFFA, 0xA4506CEB, 0xBEF9A3F7, 0xC67178F2]"

definition H256 :: hstate where
  "H256 = (0x6A09E667, 0xBB67AE85, 0x3C6EF372, 0xA54FF53A,
           0x510E527F, 0x9B05688C, 0x1F83D9AB, 0x5BE0CD19)"

definition be32 :: "byte list \<Rightarrow> u32" where
  "be32 bs = foldl (\<lambda>acc b. push_bit 8 acc OR ucast b) 0 bs"

definition word_bytes :: "u32 \<Rightarrow> byte list" where
  "word_bytes w = [ucast (drop_bit 24 w), ucast (drop_bit 16 w), ucast (drop_bit 8 w), ucast w]"

function chunks :: "nat \<Rightarrow> 'a list \<Rightarrow> 'a list list" where
  "chunks n xs = (if n = 0 \<or> xs = [] then [] else take n xs # chunks n (drop n xs))"
  by pat_completeness auto
termination
  by (relation "measure (\<lambda>(n, xs). length xs)") auto

declare chunks.simps [simp del]

fun schedule_extend :: "nat \<Rightarrow> u32 list \<Rightarrow> u32 list" where
  "schedule_extend 0 w = w"
| "schedule_extend (Suc k) w =
     (let t = length w in
      schedule_extend k
        (w @ [sigma1 (w ! (t - 2)) + w ! (t - 7) + sigma0 (w ! (t - 15)) + w ! (t - 16)]))"

definition schedule :: "byte list \<Rightarrow> u32 list" where
  "schedule block = schedule_extend 48 (map be32 (chunks 4 block))"

fun sha256_round :: "hstate \<Rightarrow> u32 \<times> u32 \<Rightarrow> hstate" where
  "sha256_round (a, b, c, d, e, f, g, h) (k, w) =
     (let T1 = h + Sigma1 e + Ch e f g + k + w;
          T2 = Sigma0 a + Maj a b c
      in (T1 + T2, a, b, c, d + T1, e, f, g))"

fun add_state :: "hstate \<Rightarrow> hstate \<Rightarrow> hstate" where
  "add_state (a, b, c, d, e, f, g, h) (a', b', c', d', e', f', g', h') =
     (a + a', b + b', c + c', d + d', e + e', f + f', g + g', h + h')"

definition compress :: "hstate \<Rightarrow> byte list \<Rightarrow> hstate" where
  "compress H block = add_state H (foldl sha256_round H (zip K256 (schedule block)))"

definition len64 :: "nat \<Rightarrow> byte list" where
  "len64 n = (let w = (of_nat n :: 64 word)
              in map (\<lambda>i. ucast (drop_bit (8 * i) w)) [7, 6, 5, 4, 3, 2, 1, 0])"

definition pad :: "byte list \<Rightarrow> byte list" where
  "pad m = m @ [0x80] @ replicate ((119 - length m mod 64) mod 64) 0 @ len64 (8 * length m)"

fun digest_bytes :: "hstate \<Rightarrow> byte list" where
  "digest_bytes (a, b, c, d, e, f, g, h) = concat (map word_bytes [a, b, c, d, e, f, g, h])"

definition sha256 :: "byte list \<Rightarrow> byte list" where
  "sha256 m = digest_bytes (foldl compress H256 (chunks 64 (pad m)))"

subsection \<open>HMAC (RFC 2104) over SHA-256, block size 64\<close>

definition hmac_key_block :: "byte list \<Rightarrow> byte list" where
  "hmac_key_block key =
     (let k = (if length key > 64 then sha256 key else key)
      in k @ replicate (64 - length k) 0)"

definition hmac_sha256 :: "byte list \<Rightarrow> byte list \<Rightarrow> byte list" where
  "hmac_sha256 key m =
     (let k = hmac_key_block key
      in sha256 (map (\<lambda>b. b XOR 0x5c) k @ sha256 (map (\<lambda>b. b XOR 0x36) k @ m)))"

subsection \<open>The \<^verbatim>\<open>Hmac\<close> object: \<^verbatim>\<open>createHmac(...).update(data).digest('hex')\<close>\<close>

text \<open>
  \<^verbatim>\<open>createHmac\<close> returns a fresh object holding the key and the data fed so far;
  a string key and string data are taken as their UTF-8 bytes; \<^verbatim>\<open>digest('hex')\<close>
  renders the 32 digest bytes as lowercase hexadecimal.
\<close>

record Hmac =
  hmac_key :: "byte list"
  hmac_data :: "byte list"

definition createHmac_sha256 :: "jsstring \<Rightarrow> Hmac" where
  "createHmac_sha256 key = \<lparr>hmac_key = utf8_encode key, hmac_data = []\<rparr>"

definition Hmac_update :: "Hmac \<Rightarrow> jsstring \<Rightarrow> Hmac" where
  "Hmac_update h data = h\<lparr>hmac_data := hmac_data h @ utf8_encode data\<rparr>"

definition hex_digit :: "nat \<Rightarrow> jschar" where
  "hex_digit n = js ''0123456789abcdef'' ! n"

definition hex_encode :: "byte list \<Rightarrow> jsstring" where
  "hex_encode bs = concat (map (\<lambda>b. [hex_digit (unat b div 16), hex_digit (unat b mod 16)]) bs)"

definition Hmac_digest_hex :: "Hmac \<Rightarrow> jsstring" where
  "Hmac_digest_hex h = hex_encode (hmac_sha256 (hmac_key h) (hmac_data h))"


section \<open>Constants\<close>

text \<open>
  \<^verbatim>\<open>./constants\<close> is imported by \<^verbatim>\<open>Request.ts\<close> but its values are not part of
  the file under verification; the constants are a parameter of every definition
  that reads them.
\<close>

record Constants =
  API_URL :: jsstring
  API_HOST :: jsstring
  SIGNATURE_KEY :: jsstring
  SIGNATURE_VERSION :: jsstring
  HEADER_CONNECTION_TYPE :: jsstring
  HEADER_CAPABILITIES :: jsstring
  FACEBOOK_ANALYTICS_APPLICATION_ID :: jsstring
  BLOKS_VERSION_ID :: jsstring
  LANGUAGE :: jsstring

section \<open>\<^verbatim>\<open>Request.sign\<close>\<close>

text \<open>
  \<^verbatim>\<open>return createHmac('sha256', Constants.SIGNATURE_KEY).update(data).digest('hex')\<close>
\<close>

definition sign :: "Constants \<Rightarrow> jsstring \<Rightarrow> jsstring" where
  "sign c data = Hmac_digest_hex (Hmac_update (createHmac_sha256 (SIGNATURE_KEY c)) data)"

section \<open>Objects\<close>

text \<open>
  An ordinary object with string keys is the list of its own properties in the order in
  which they were created; the keys of an object are pairwise distinct. Reading the keys
  of an object (\<^verbatim>\<open>OrdinaryOwnPropertyKeys\<close>, which spread syntax and
  \<^verbatim>\<open>JSON.stringify\<close> use) yields the array-index keys first, in ascending numeric
  order, and then the other keys in creation order. An array index is the canonical
  decimal string of an integer from 0 to \<open>2\<^sup>3\<^sup>2 - 2\<close>.
\<close>

type_synonym 'v jsobject = "(jsstring \<times> 'v) list"

definition is_digit :: "jschar \<Rightarrow> bool" where
  "is_digit u = (0x30 \<le> u \<and> u \<le> 0x39)"

definition digit_value :: "jschar \<Rightarrow> nat" where
  "digit_value u = unat u - 0x30"

definition decimal_value :: "jsstring \<Rightarrow> nat" where
  "decimal_value s = foldl (\<lambda>acc u. 10 * acc + digit_value u) 0 s"

definition is_array_index :: "jsstring \<Rightarrow> bool" where
  "is_array_index s =
     (s \<noteq> [] \<and> list_all is_digit s \<and> \<not> (hd s = 0x30 \<and> 1 < length s)
      \<and> decimal_value s < 4294967295)"

definition own_entries :: "'v jsobject \<Rightarrow> 'v jsobject" where
  "own_entries obj =
     sort_key (\<lambda>p. decimal_value (fst p)) (filter (\<lambda>p. is_array_index (fst p)) obj)
     @ filter (\<lambda>p. \<not> is_array_index (fst p)) obj"

definition ownKeys :: "'v jsobject \<Rightarrow> jsstring list" where
  "ownKeys obj = map fst (own_entries obj)"

text \<open>
  \<^verbatim>\<open>CreateDataProperty\<close> overwrites the value of an existing key in place and
  appends a new key at the end, which is what \<open>AList.update\<close> does.
  \<^verbatim>\<open>CopyDataProperties\<close> is the step of spread syntax: every own key of the
  source, in \<open>ownKeys\<close> order, is read and defined on the target. The object literal
  \<^verbatim>\<open>{ ...a, ...b }\<close> starts from the empty object.
\<close>

definition CopyDataProperties :: "'v jsobject \<Rightarrow> 'v jsobject \<Rightarrow> 'v jsobject" where
  "CopyDataProperties target source =
     foldl (\<lambda>t k. case map_of source k of Some v \<Rightarrow> AList.update k v t | None \<Rightarrow> t)
       target (ownKeys source)"

definition spread2 :: "'v jsobject \<Rightarrow> 'v jsobject \<Rightarrow> 'v jsobject" where
  "spread2 a b = CopyDataProperties (CopyDataProperties [] a) b"

text \<open>\<^verbatim>\<open>x || {}\<close> for an optional object \<open>x\<close> (an object is always truthy).\<close>

definition or_empty :: "'v jsobject option \<Rightarrow> 'v jsobject" where
  "or_empty x = (case x of None \<Rightarrow> [] | Some obj \<Rightarrow> obj)"

section \<open>\<^verbatim>\<open>JSON.stringify\<close>\<close>

text \<open>
  The values a form field can hold. \<open>JNumber n\<close> is the Number whose value is the
  integer \<open>n\<close>; the model covers the integral Numbers below \<open>10\<^sup>2\<^sup>1\<close> in
  magnitude, which \<^verbatim>\<open>Number::toString\<close> prints as plain decimal digits. Numbers with
  a fractional part, functions, symbols, BigInts and objects with a \<^verbatim>\<open>toJSON\<close>
  method are outside the model; a value is a tree, so it has no cycles.
\<close>

datatype jsval =
    JUndefined
  | JNull
  | JBoolean bool
  | JNumber int
  | JString jsstring
  | JArray "jsval list"
  | JObject "(jsstring \<times> jsval) list"

function dec :: "nat \<Rightarrow> jsstring" where
  "dec n = (if n < 10 then [of_nat (0x30 + n)] else dec (n div 10) @ [of_nat (0x30 + n mod 10)])"
  by pat_completeness auto
termination
  by (relation "measure id") auto

declare dec.simps [simp del]

definition Number_toString :: "int \<Rightarrow> jsstring" where
  "Number_toString n = (if n < 0 then js ''-'' @ dec (nat (- n)) else dec (nat n))"

text \<open>
  \<^verbatim>\<open>QuoteJSONString\<close>: backspace, tab, line feed, form feed, carriage return, the
  double quote (0x22) and the backslash (0x5C) have two-character escapes; other code
  units below 0x20 and surrogates outside a pair become \<^verbatim>\<open>\uXXXX\<close> with lowercase
  hexadecimal digits; everything else is copied.
\<close>

definition UnicodeEscape :: "jschar \<Rightarrow> jsstring" where
  "UnicodeEscape u =
     [0x5C, 0x75, hex_digit (unat u div 4096), hex_digit (unat u div 256 mod 16),
      hex_digit (unat u div 16 mod 16), hex_digit (unat u mod 16)]"

definition quote_unit :: "jschar \<Rightarrow> jsstring" where
  "quote_unit u =
     (if u = 0x08 then [0x5C, 0x62]
      else if u = 0x09 then [0x5C, 0x74]
      else if u = 0x0A then [0x5C, 0x6E]
      else if u = 0x0C then [0x5C, 0x66]
      else if u = 0x0D then [0x5C, 0x72]
      else if u = 0x22 then [0x5C, 0x22]
      else if u = 0x5C then [0x5C, 0x5C]
      else if u < 0x20 \<or> is_high_surrogate u \<or> is_low_surrogate u then UnicodeEscape u
      else [u])"

fun quote_units :: "jsstring \<Rightarrow> jsstring" where
  "quote_units [] = []"
| "quote_units [u] = quote_unit u"
| "quote_units (u # v # us) =
     (if is_high_surrogate u \<and> is_low_surrogate v then u # v # quote_units us
      else quote_unit u @ quote_units (v # us))"

definition QuoteJSONString :: "jsstring \<Rightarrow> jsstring" where
  "QuoteJSONString s = [0x22] @ quote_units s @ [0x22]"

fun join :: "jsstring \<Rightarrow> jsstring list \<Rightarrow> jsstring" where
  "join sep [] = []"
| "join sep [x] = x"
| "join sep (x # y # ys) = x @ sep @ join sep (y # ys)"

text \<open>
  \<^verbatim>\<open>SerializeJSONProperty\<close> yields no text (\<open>None\<close>) for \<^verbatim>\<open>undefined\<close>. In an
  array such an element is written \<^verbatim>\<open>null\<close>; in an object the member is left out.
  \<^verbatim>\<open>SerializeJSONObject\<close> writes the members in \<open>own_entries\<close> order; it is given
  the properties with their values already serialized (the order depends on the keys
  only). No indentation is used, as \<^verbatim>\<open>JSON.stringify(data)\<close> passes no \<^verbatim>\<open>space\<close>.
\<close>

definition member_text :: "jsstring \<times> jsstring option \<Rightarrow> jsstring option" where
  "member_text p =
     (case snd p of None \<Rightarrow> None | Some t \<Rightarrow> Some (QuoteJSONString (fst p) @ js '':'' @ t))"

definition SerializeJSONObject :: "jsstring option jsobject \<Rightarrow> jsstring" where
  "SerializeJSONObject props =
     js ''{'' @ join (js '','') (List.map_filter member_text (own_entries props)) @ js ''}''"

definition element_text :: "jsstring option \<Rightarrow> jsstring" where
  "element_text t = (case t of None \<Rightarrow> js ''null'' | Some s \<Rightarrow> s)"

fun SerializeJSONProperty :: "jsval \<Rightarrow> jsstring option" where
  "SerializeJSONProperty JUndefined = None"
| "SerializeJSONProperty JNull = Some (js ''null'')"
| "SerializeJSONProperty (JBoolean b) = Some (if b then js ''true'' else js ''false'')"
| "SerializeJSONProperty (JNumber n) = Some (Number_toString n)"
| "SerializeJSONProperty (JString s) = Some (QuoteJSONString s)"
| "SerializeJSONProperty (JArray xs) =
     Some (js ''['' @ join (js '','') (map (\<lambda>x. element_text (SerializeJSONProperty x)) xs)
           @ js '']'')"
| "SerializeJSONProperty (JObject props) =
     Some (SerializeJSONObject (map (\<lambda>p. (fst p, SerializeJSONProperty (snd p))) props))"

text \<open>\<^verbatim>\<open>JSON.stringify(data)\<close> for an object \<open>data\<close>.\<close>

definition JSON_stringify :: "jsval jsobject \<Rightarrow> jsstring" where
  "JSON_stringify data =
     SerializeJSONObject (map (\<lambda>p. (fst p, SerializeJSONProperty (snd p))) data)"

section \<open>\<^verbatim>\<open>Request.signData\<close>\<close>

text \<open>
  \<^verbatim>\<open>const string = JSON.stringify(data); const signature = this.sign(string)\<close>, and the
  result is the object literal with the two properties \<^verbatim>\<open>ig_sig_key_version\<close> and
  \<^verbatim>\<open>signed_body\<close>, the latter the template \<^verbatim>\<open>`${signature}.${string}`\<close>.
\<close>

definition signData :: "Constants \<Rightarrow> jsval jsobject \<Rightarrow> jsstring jsobject" where
  "signData c data =
     (let string = JSON_stringify data;
          signature = sign c string
      in [(js ''ig_sig_key_version'', SIGNATURE_VERSION c),
          (js ''signed_body'', signature @ js ''.'' @ string)])"

section \<open>Session state\<close>

text \<open>
  \<^verbatim>\<open>this.client.state\<close>: the fields \<^verbatim>\<open>Request.ts\<close> reads or writes. The class of the
  state object is not part of the file under verification; its fields are taken to hold
  strings. \<open>cookieJar\<close> is the cookie store seen through its accessor: \<open>cookieJar st name\<close>
  is what \<^verbatim>\<open>state.getCookieValue(name)\<close> returns. The constructor hands the same store
  to the transport, which may put cookies into it during an exchange.
\<close>

type_synonym cookies = "jsstring \<Rightarrow> jsstring"

record state =
  csrfToken :: jsstring
  uuid :: jsstring
  deviceId :: jsstring
  pigeonSessionId :: jsstring
  appUserAgent :: jsstring
  cookieJar :: cookies
  authorization :: jsstring
  igWWWClaim :: jsstring
  passwordEncryptionKeyId :: jsstring
  passwordEncryptionPublicKey :: jsstring

definition getCookieValue :: "state \<Rightarrow> jsstring \<Rightarrow> jsstring" where
  "getCookieValue st name = cookieJar st name"

section \<open>The getters \<^verbatim>\<open>data\<close> and \<^verbatim>\<open>headers\<close>\<close>

definition Request_data :: "state \<Rightarrow> jsval jsobject" where
  "Request_data st = [(js ''_csrfToken'', JString (csrfToken st))]"

text \<open>
  \<^verbatim>\<open>Number.prototype.toFixed(f)\<close> for a Number of magnitude below \<open>10\<^sup>2\<^sup>1\<close>: with the sign
  taken off, \<open>n\<close> is the integer for which \<open>n / 10\<^sup>f\<close> is nearest to the value (the larger
  one of two); its digits are padded with zeros to more than \<open>f\<close> digits and the point
  is put before the last \<open>f\<close>. (For larger magnitudes the method returns \<^verbatim>\<open>ToString\<close>
  of the Number, which this definition does not cover.)
\<close>

definition toFixed :: "nat \<Rightarrow> real \<Rightarrow> jsstring" where
  "toFixed f x =
     (let s = (if x < 0 then js ''-'' else []);
          n = nat \<lfloor>\<bar>x\<bar> * 10 ^ f + 1 / 2\<rfloor>;
          m = dec n;
          m = (if f = 0 then m
               else let m = replicate (f + 1 - length m) 0x30 @ m;
                        k = length m
                    in take (k - f) m @ js ''.'' @ drop (k - f) m)
      in s @ m)"

text \<open>
  \<^verbatim>\<open>String.prototype.replace\<close> with a one-character search string and a replacement
  without \<^verbatim>\<open>$\<close>: the first occurrence is replaced.
\<close>

fun replace_first :: "jschar \<Rightarrow> jsstring \<Rightarrow> jsstring \<Rightarrow> jsstring" where
  "replace_first u r [] = []"
| "replace_first u r (x # xs) = (if x = u then r @ xs else x # replace_first u r xs)"

text \<open>
  The getter is evaluated at every access. Its argument \<open>secs\<close> is the Number
  \<^verbatim>\<open>Date.now() / 1000\<close> of that evaluation.
\<close>

definition Request_headers :: "Constants \<Rightarrow> state \<Rightarrow> real \<Rightarrow> jsstring jsobject" where
  "Request_headers c st secs =
     [(js ''X-Ads-Opt-Out'', js ''1''),
      (js ''X-CM-Bandwidth-KBPS'', js ''-1.000''),
      (js ''X-CM-Latency'', js ''-1.000''),
      (js ''X-IG-Connection-Speed'', js ''3700kbps''),
      (js ''X-IG-Bandwidth-Speed-KBPS'', js ''-1.000''),
      (js ''X-IG-Bandwidth-TotalBytes-B'', js ''0''),
      (js ''X-IG-Bandwidth-TotalTime-MS'', js ''0''),
      (js ''X-IG-EU-DC-ENABLED'', js ''false''),
      (js ''X-IG-Extended-CDN-Thumbnail-Cache-Busting-Value'', js ''1000''),
      (js ''X-IG-WWW-Claim'', js ''0''),
      (js ''X-Bloks-Is-Layout-RTL'', js ''false''),
      (js ''X-FB-HTTP-Engine'', js ''Liger''),
      (js ''X-Pigeon-Rawclienttime'', toFixed 3 secs),
      (js ''X-Pigeon-Session-Id'', pigeonSessionId st),
      (js ''X-IG-Connection-Type'', HEADER_CONNECTION_TYPE c),
      (js ''X-IG-Capabilities'', HEADER_CAPABILITIES c),
      (js ''X-IG-App-ID'', FACEBOOK_ANALYTICS_APPLICATION_ID c),
      (js ''X-Bloks-Version-Id'', BLOKS_VERSION_ID c),
      (js ''X-IG-App-Locale'', LANGUAGE c),
      (js ''X-IG-Device-Locale'', LANGUAGE c),
      (js ''X-IG-Device-ID'', uuid st),
      (js ''X-IG-Android-ID'', deviceId st),
      (js ''X-DEVICE-ID'', uuid st),
      (js ''X-MID'', getCookieValue st (js ''mid'')),
      (js ''Accept-Language'', replace_first 0x5F (js ''-'') (LANGUAGE c)),
      (js ''Accept-Encoding'', js ''gzip''),
      (js ''User-Agent'', appUserAgent st),
      (js ''Authorization'', authorization st),
      (js ''Host'', API_HOST c),
      (js ''Connection'', js ''close'')]"

section \<open>Responses and the response hook\<close>

text \<open>
  A header of a response is a string, or an array of strings when the header was
  received several times; a header that was not received is not a key of the object.
  \<open>body\<close> is the body after the transport has decoded it (\<^verbatim>\<open>responseType: 'json'\<close>).
\<close>

datatype header_value = HString jsstring | HArray "jsstring list"

record Response =
  statusCode :: nat
  res_headers :: "header_value jsobject"
  body :: jsval

definition updateStateFromResponse :: "state \<Rightarrow> Response \<Rightarrow> state" where
  "updateStateFromResponse st response =
     (let h = res_headers response;
          st = (case map_of h (js ''x-ig-set-www-claim'') of
                  Some (HString v) \<Rightarrow> st\<lparr>igWWWClaim := v\<rparr> | _ \<Rightarrow> st);
          st = (case map_of h (js ''ig-set-authorization'') of
                  Some (HString v) \<Rightarrow> st\<lparr>authorization := v\<rparr> | _ \<Rightarrow> st);
          st = (case map_of h (js ''ig-set-password-encryption-key-id'') of
                  Some (HString v) \<Rightarrow> st\<lparr>passwordEncryptionKeyId := v\<rparr> | _ \<Rightarrow> st);
          st = (case map_of h (js ''ig-set-password-encryption-pub-key'') of
                  Some (HString v) \<Rightarrow> st\<lparr>passwordEncryptionPublicKey := v\<rparr> | _ \<Rightarrow> st)
      in st)"

definition afterResponse :: "state \<Rightarrow> Response \<Rightarrow> Response \<times> state" where
  "afterResponse st response = (response, updateStateFromResponse st response)"

section \<open>The transport: a \<^verbatim>\<open>got\<close> instance\<close>

text \<open>
  The options object \<^verbatim>\<open>send\<close> passes to \<^verbatim>\<open>got\<close>. Of the three properties from
  which \<^verbatim>\<open>got\<close> takes a request payload (\<^verbatim>\<open>body\<close>, \<^verbatim>\<open>json\<close>, \<^verbatim>\<open>form\<close>) the last
  two fields record \<^verbatim>\<open>body\<close> and \<^verbatim>\<open>json\<close>, \<open>None\<close> when the property is absent.
\<close>

record Options =
  opt_url :: jsstring
  opt_method :: jsstring
  opt_responseType :: jsstring
  opt_headers :: "jsstring jsobject"
  opt_form :: "jsstring jsobject"
  opt_body :: "jsstring option"
  opt_json :: "jsval option"

text \<open>
  An instance made by \<^verbatim>\<open>got.extend\<close> carries its defaults; the constructor of
  \<^verbatim>\<open>Request\<close> sets \<^verbatim>\<open>prefixUrl\<close>, the cookie jar of the state and the
  \<^verbatim>\<open>afterResponse\<close> hook, and leaves \<^verbatim>\<open>throwHttpErrors\<close> and \<^verbatim>\<open>followRedirect\<close>
  at their defaults (both true).

  The network is a parameter: given the prefix, the options and the cookie jar, an
  exchange either fails before a response is handed to the hooks (no connection, a
  timeout, options the library refuses, a body of an accepted response that is not
  JSON), or it delivers a response; either way it returns the jar as the transport
  leaves it. For a delivered response the instance calls its \<^verbatim>\<open>afterResponse\<close>
  hooks in order and then, as \<^verbatim>\<open>throwHttpErrors\<close> is on, rejects with an
  \<^verbatim>\<open>HTTPError\<close> unless the status is 2xx or 304. A call is answered once here: a
  request that the library repeats by itself would be a further exchange of the same
  kind.
\<close>

datatype gotError = RequestError jsstring | HTTPError Response

type_synonym hook = "state \<Rightarrow> Response \<Rightarrow> Response \<times> state"

type_synonym network = "jsstring \<Rightarrow> Options \<Rightarrow> cookies \<Rightarrow> (jsstring + Response) \<times> cookies"

record Got =
  prefixUrl :: jsstring
  afterResponse_hooks :: "hook list"

fun run_hooks :: "hook list \<Rightarrow> state \<Rightarrow> Response \<Rightarrow> Response \<times> state" where
  "run_hooks [] st response = (response, st)"
| "run_hooks (h # hs) st response =
     (case h st response of (response', st') \<Rightarrow> run_hooks hs st' response')"

definition isResponseOk :: "Response \<Rightarrow> bool" where
  "isResponseOk response =
     ((200 \<le> statusCode response \<and> statusCode response \<le> 299) \<or> statusCode response = 304)"

definition got_request :: "Got \<Rightarrow> network \<Rightarrow> Options \<Rightarrow> state \<Rightarrow> (gotError + Response) \<times> state" where
  "got_request g net options st =
     (case net (prefixUrl g) options (cookieJar st) of
        (Inl reason, jar) \<Rightarrow> (Inl (RequestError reason), st\<lparr>cookieJar := jar\<rparr>)
      | (Inr response, jar) \<Rightarrow>
          (case run_hooks (afterResponse_hooks g) (st\<lparr>cookieJar := jar\<rparr>) response of
             (response', st') \<Rightarrow>
               if isResponseOk response' then (Inr response', st')
               else (Inl (HTTPError response'), st')))"

text \<open>The instance the constructor of \<^verbatim>\<open>Request\<close> builds.\<close>

definition Request_got :: "Constants \<Rightarrow> Got" where
  "Request_got c = \<lparr>prefixUrl = API_URL c, afterResponse_hooks = [afterResponse]\<rparr>"

section \<open>\<^verbatim>\<open>Request.send\<close>\<close>

text \<open>
  The argument of \<^verbatim>\<open>send\<close>; \<^verbatim>\<open>method\<close>, \<^verbatim>\<open>headers\<close> and \<^verbatim>\<open>data\<close> are optional.
\<close>

record RequestOptions =
  url :: jsstring
  "method" :: "jsstring option"
  headers :: "jsstring jsobject option"
  data :: "jsval jsobject option"

text \<open>\<^verbatim>\<open>options.method || 'GET'\<close>: an absent or empty method is falsy.\<close>

definition method_or_GET :: "jsstring option \<Rightarrow> jsstring" where
  "method_or_GET m = (case m of None \<Rightarrow> js ''GET'' | Some s \<Rightarrow> if s = [] then js ''GET'' else s)"

text \<open>The constant \<^verbatim>\<open>requestOptions\<close> of \<^verbatim>\<open>send\<close> (lines 41 to 51).\<close>

definition requestOptions :: "Constants \<Rightarrow> real \<Rightarrow> state \<Rightarrow> RequestOptions \<Rightarrow> Options" where
  "requestOptions c secs st options =
     (let headers' = spread2 (Request_headers c st secs) (or_empty (headers options));
          data' = spread2 (Request_data st) (or_empty (data options));
          form = signData c data'
      in \<lparr>opt_url = url options,
          opt_method = method_or_GET (method options),
          opt_responseType = js ''json'',
          opt_headers = headers',
          opt_form = form,
          opt_body = None,
          opt_json = None\<rparr>)"

text \<open>
  \<^verbatim>\<open>const response = await this.got(requestOptions); return response.body\<close>. The
  result is the value of the promise (\<open>Inr\<close>) or what it is rejected with (\<open>Inl\<close>),
  together with the state after the call.
\<close>

definition send :: "Constants \<Rightarrow> network \<Rightarrow> real \<Rightarrow> state \<Rightarrow> RequestOptions \<Rightarrow> (gotError + jsval) \<times> state" where
  "send c net secs st options =
     (case got_request (Request_got c) net (requestOptions c secs st options) st of
        (Inl e, st') \<Rightarrow> (Inl e, st')
      | (Inr response, st') \<Rightarrow> (Inr (body response), st'))"

section \<open>Reference definitions for the properties\<close>

text \<open>
  The definitions of this section are not taken from \<^verbatim>\<open>Request.ts\<close>. They say what
  the properties below compare the code with.
\<close>

subsection \<open>Serialization in insertion order\<close>






subsection \<open>Checking a signed body\<close>


subsection \<open>Reading a decimal numeral\<close>

text \<open>
  The value of a numeral made of digits, a full stop and digits; \<open>digits3\<close> are the three
  digits of a number below 1000.
\<close>

definition parse_decimal :: "jsstring \<Rightarrow> real option" where
  "parse_decimal s =
     (let ip = takeWhile is_digit s;
          fp = drop (length ip + 1) s
      in if ip \<noteq> [] \<and> drop (length ip) s = js ''.'' @ fp \<and> fp \<noteq> [] \<and> list_all is_digit fp
         then Some (real (decimal_value ip) + real (decimal_value fp) / 10 ^ length fp)
         else None)"

definition digits3 :: "nat \<Rightarrow> jsstring" where
  "digits3 m =
     [of_nat (0x30 + m div 100), of_nat (0x30 + m div 10 mod 10), of_nat (0x30 + m mod 10)]"

subsection \<open>Stub networks and sample values\<close>

text \<open>
  A network that answers every request with status 200, no headers and the form of the
  request as its body, one that answers every request with status 404, a JSON body and
  a new authorization token, and one on which every exchange fails; all of them leave
  the cookie jar alone.
\<close>

definition echo_network :: network where
  "echo_network prefix options jar =
     (Inr \<lparr>statusCode = 200, res_headers = [],
           body = JObject (map (\<lambda>p. (fst p, JString (snd p))) (opt_form options))\<rparr>, jar)"

definition not_found_response :: Response where
  "not_found_response =
     \<lparr>statusCode = 404,
      res_headers = [(js ''ig-set-authorization'', HString (js ''Bearer new''))],
      body = JObject [(js ''status'', JString (js ''fail''))]\<rparr>"

definition not_found_network :: network where
  "not_found_network prefix options jar = (Inr not_found_response, jar)"

definition offline_network :: network where
  "offline_network prefix options jar = (Inl (js ''ECONNREFUSED''), jar)"

definition sample_constants :: Constants where
  "sample_constants =
     \<lparr>API_URL = js ''https://i.instagram.com/api/v1/'',
      API_HOST = js ''i.instagram.com'',
      SIGNATURE_KEY = js ''0123456789abcdef'',
      SIGNATURE_VERSION = js ''4'',
      HEADER_CONNECTION_TYPE = js ''WIFI'',
      HEADER_CAPABILITIES = js ''3brTvwE='',
      FACEBOOK_ANALYTICS_APPLICATION_ID = js ''567067343352427'',
      BLOKS_VERSION_ID = js ''0'',
      LANGUAGE = js ''en_US''\<rparr>"

definition sample_state :: state where
  "sample_state =
     \<lparr>csrfToken = js ''csrf'',
      uuid = js ''uuid'',
      deviceId = js ''android-1'',
      pigeonSessionId = js ''pigeon'',
      appUserAgent = js ''Instagram'',
      cookieJar = (\<lambda>name. []),
      authorization = js ''Bearer old'',
      igWWWClaim = js ''claim'',
      passwordEncryptionKeyId = js ''1'',
      passwordEncryptionPublicKey = js ''pub''\<rparr>"

definition sample_options :: RequestOptions where
  "sample_options =
     \<lparr>url = js ''foo'', method = Some (js ''POST''), headers = None,
      data = Some [(js ''x'', JNumber 1)]\<rparr>"

section \<open>Auxiliary facts\<close>

lemma unat_of_char16: "unat (of_char c :: jschar) = of_char c"
proof -
  have "unat (of_nat (of_char c) :: jschar) = of_char c mod 2 ^ 16"
    by (simp add: unat_of_nat)
  moreover have "(of_char c :: nat) < 2 ^ 16"
    using nat_of_char_less_256 [of c] by (rule order_less_trans) simp
  ultimately show ?thesis by (simp add: of_nat_of_char)
qed

lemma of_char16_eq_iff: "((of_char a :: jschar) = of_char b) = (a = b)"
proof
  assume "(of_char a :: jschar) = of_char b"
  then have "unat (of_char a :: jschar) = unat (of_char b :: jschar)" by simp
  then show "a = b" by (simp add: unat_of_char16)
qed simp

lemma js_eq_iff [simp]: "(js a = js b) = (a = b)"
proof -
  have "inj (of_char :: char \<Rightarrow> jschar)"
    by (rule injI) (simp add: of_char16_eq_iff)
  then show ?thesis
    unfolding js_def by (rule inj_map_eq_map)
qed












lemma set_own_entries: "set (own_entries obj) = set obj"
  by (auto simp: own_entries_def)

lemma set_ownKeys: "set (ownKeys obj) = fst ` set obj"
  by (simp add: ownKeys_def set_own_entries)

lemma map_of_copy_step:
  "set ks \<subseteq> dom (map_of src) \<Longrightarrow>
   map_of (foldl (\<lambda>t k. case map_of src k of Some v \<Rightarrow> AList.update k v t | None \<Rightarrow> t) t ks)
   = map_of t ++ (map_of src |` set ks)"
proof (induction ks arbitrary: t)
  case Nil
  then show ?case by simp
next
  case (Cons k ks)
  then obtain v where v: "map_of src k = Some v" by auto
  from Cons.prems have sub: "set ks \<subseteq> dom (map_of src)" by simp
  show ?case
    apply (simp add: v Cons.IH [OF sub] update_conv')
    apply (rule ext)
    apply (auto simp: map_add_def restrict_map_def v split: option.splits)
    done
qed

lemma map_of_CopyDataProperties:
  "map_of (CopyDataProperties t src) = map_of t ++ map_of src"
proof -
  have d: "set (ownKeys src) = dom (map_of src)"
    by (simp add: set_ownKeys dom_map_of_conv_image_fst)
  have "map_of (CopyDataProperties t src) = map_of t ++ (map_of src |` dom (map_of src))"
    unfolding CopyDataProperties_def using map_of_copy_step [of "ownKeys src" src t] d by simp
  then show ?thesis by (simp add: restrict_map_def map_add_def fun_eq_iff domIff split: option.splits)
qed

lemma map_of_spread2: "map_of (spread2 a b) = map_of a ++ map_of b"
  by (simp add: spread2_def map_of_CopyDataProperties)


lemma set_claim:
  "(case x of Some (HString v) \<Rightarrow> st\<lparr>igWWWClaim := v\<rparr> | _ \<Rightarrow> st)
   = st\<lparr>igWWWClaim := (case x of Some (HString v) \<Rightarrow> v | _ \<Rightarrow> igWWWClaim st)\<rparr>"
  by (simp split: option.splits header_value.splits)

lemma set_authorization:
  "(case x of Some (HString v) \<Rightarrow> st\<lparr>authorization := v\<rparr> | _ \<Rightarrow> st)
   = st\<lparr>authorization := (case x of Some (HString v) \<Rightarrow> v | _ \<Rightarrow> authorization st)\<rparr>"
  by (simp split: option.splits header_value.splits)

lemma set_key_id:
  "(case x of Some (HString v) \<Rightarrow> st\<lparr>passwordEncryptionKeyId := v\<rparr> | _ \<Rightarrow> st)
   = st\<lparr>passwordEncryptionKeyId :=
          (case x of Some (HString v) \<Rightarrow> v | _ \<Rightarrow> passwordEncryptionKeyId st)\<rparr>"
  by (simp split: option.splits header_value.splits)

lemma set_public_key:
  "(case x of Some (HString v) \<Rightarrow> st\<lparr>passwordEncryptionPublicKey := v\<rparr> | _ \<Rightarrow> st)
   = st\<lparr>passwordEncryptionPublicKey :=
          (case x of Some (HString v) \<Rightarrow> v | _ \<Rightarrow> passwordEncryptionPublicKey st)\<rparr>"
  by (simp split: option.splits header_value.splits)

lemma updateStateFromResponse_eq:
  "updateStateFromResponse st r =
     st\<lparr>igWWWClaim :=
          (case map_of (res_headers r) (js ''x-ig-set-www-claim'') of
             Some (HString v) \<Rightarrow> v | _ \<Rightarrow> igWWWClaim st),
        authorization :=
          (case map_of (res_headers r) (js ''ig-set-authorization'') of
             Some (HString v) \<Rightarrow> v | _ \<Rightarrow> authorization st),
        passwordEncryptionKeyId :=
          (case map_of (res_headers r) (js ''ig-set-password-encryption-key-id'') of
             Some (HString v) \<Rightarrow> v | _ \<Rightarrow> passwordEncryptionKeyId st),
        passwordEncryptionPublicKey :=
          (case map_of (res_headers r) (js ''ig-set-password-encryption-pub-key'') of
             Some (HString v) \<Rightarrow> v | _ \<Rightarrow> passwordEncryptionPublicKey st)\<rparr>"
  unfolding updateStateFromResponse_def Let_def
  by (simp only: set_claim set_authorization set_key_id set_public_key)
    (simp cong: option.case_cong header_value.case_cong)

lemma upd_frame:
  "csrfToken (updateStateFromResponse st r) = csrfToken st"
  "uuid (updateStateFromResponse st r) = uuid st"
  "deviceId (updateStateFromResponse st r) = deviceId st"
  "pigeonSessionId (updateStateFromResponse st r) = pigeonSessionId st"
  "appUserAgent (updateStateFromResponse st r) = appUserAgent st"
  "cookieJar (updateStateFromResponse st r) = cookieJar st"
  by (simp_all add: updateStateFromResponse_eq)

lemma dec_step: "10 \<le> n \<Longrightarrow> dec n = dec (n div 10) @ [of_nat (0x30 + n mod 10)]"
  by (subst dec.simps) simp

lemma digits3_mod:
  "digits3 (n mod 1000) =
     [of_nat (0x30 + n div 100 mod 10), of_nat (0x30 + n div 10 mod 10), of_nat (0x30 + n mod 10)]"
proof -
  have "n mod 1000 div 100 = n div 100 mod 10"
    using mod_mult2_eq [of n 100 10] by simp
  moreover have "n mod 1000 div 10 mod 10 = n div 10 mod 10"
  proof -
    have "n mod 1000 div 10 = n div 10 mod 100"
      using mod_mult2_eq [of n 10 100] by simp
    moreover have "n div 10 mod 100 mod 10 = n div 10 mod 10"
      by (simp add: mod_mod_cancel)
    ultimately show ?thesis by simp
  qed
  moreover have "n mod 1000 mod 10 = n mod 10"
    by (simp add: mod_mod_cancel)
  ultimately show ?thesis by (simp only: digits3_def)
qed

lemma dec_ge_1000:
  assumes n: "1000 \<le> n"
  shows "dec n = dec (n div 1000) @ digits3 (n mod 1000)"
proof -
  have n1: "10 \<le> n" using n by simp
  have n2: "10 \<le> n div 10" using n by simp
  have e2: "n div 10 div 10 = n div 100" by (simp add: div_mult2_eq [symmetric])
  have n3: "10 \<le> n div 100" using n by simp
  have e3: "n div 100 div 10 = n div 1000" by (simp add: div_mult2_eq [symmetric])
  have "dec n = dec (n div 10) @ [of_nat (0x30 + n mod 10)]"
    by (rule dec_step [OF n1])
  also have "dec (n div 10) = dec (n div 100) @ [of_nat (0x30 + n div 10 mod 10)]"
    using dec_step [OF n2] by (simp only: e2)
  also have "dec (n div 100) = dec (n div 1000) @ [of_nat (0x30 + n div 100 mod 10)]"
    using dec_step [OF n3] by (simp only: e3)
  finally show ?thesis by (simp only: digits3_mod append_assoc append.simps)
qed


lemma dec_small: "n < 10 \<Longrightarrow> dec n = [of_nat (0x30 + n)]"
  by (subst dec.simps) simp

lemma dec_lt_1000:
  assumes n: "n < 1000"
  shows "replicate (4 - length (dec n)) 0x30 @ dec n = 0x30 # digits3 n"
proof -
  consider "n < 10" | "10 \<le> n" "n < 100" | "100 \<le> n" by linarith
  then show ?thesis
  proof cases
    case 1
    then have "dec n = [of_nat (0x30 + n)]" by (rule dec_small)
    moreover have "replicate 3 (0x30 :: jschar) = [0x30, 0x30, 0x30]"
      by (simp add: numeral_3_eq_3)
    ultimately show ?thesis using 1 by (simp add: digits3_def)
  next
    case 2
    then have s: "n div 10 < 10" by auto
    have "dec n = [of_nat (0x30 + n div 10), of_nat (0x30 + n mod 10)]"
      by (simp add: dec_step [OF 2(1)] dec_small [OF s])
    moreover have "replicate 2 (0x30 :: jschar) = [0x30, 0x30]"
      by (simp add: numeral_2_eq_2)
    moreover have "n div 100 = 0" "n div 10 mod 10 = n div 10" using 2 by auto
    ultimately show ?thesis by (simp add: digits3_def)
  next
    case 3
    then have a: "10 \<le> n" and b: "10 \<le> n div 10" by auto
    have s: "n div 10 div 10 < 10" using n by auto
    have e: "n div 10 div 10 = n div 100" by (simp add: div_mult2_eq [symmetric])
    have "dec n = [of_nat (0x30 + n div 10 div 10), of_nat (0x30 + n div 10 mod 10), of_nat (0x30 + n mod 10)]"
      by (simp add: dec_step [OF a] dec_step [OF b] dec_small [OF s])
    then show ?thesis by (simp add: digits3_def e)
  qed
qed

lemma got_request_Request_got:
  "got_request (Request_got c) net options st =
     (case net (API_URL c) options (cookieJar st) of
        (Inl reason, jar) \<Rightarrow> (Inl (RequestError reason), st\<lparr>cookieJar := jar\<rparr>)
      | (Inr response, jar) \<Rightarrow>
          (if isResponseOk response then Inr response else Inl (HTTPError response),
           updateStateFromResponse (st\<lparr>cookieJar := jar\<rparr>) response))"
  by (simp add: got_request_def Request_got_def afterResponse_def split: prod.splits sum.splits)

lemma send_cases:
  "send c net secs st options =
     (case net (API_URL c) (requestOptions c secs st options) (cookieJar st) of
        (Inl reason, jar) \<Rightarrow> (Inl (RequestError reason), st\<lparr>cookieJar := jar\<rparr>)
      | (Inr response, jar) \<Rightarrow>
          (if isResponseOk response then Inr (body response) else Inl (HTTPError response),
           updateStateFromResponse (st\<lparr>cookieJar := jar\<rparr>) response))"
  by (simp add: send_def got_request_Request_got split: prod.splits sum.splits)























lemma floor_ms:
  assumes ms: "ms < 2 ^ 52" and err: "\<bar>secs - real ms / 1000\<bar> \<le> real ms / 1000 / 2 ^ 53"
  shows "nat \<lfloor>\<bar>secs\<bar> * 10 ^ 3 + 1 / 2\<rfloor> = ms" and "\<not> secs < 0"
proof -
  have b: "real ms / 2 ^ 53 < 1 / 2"
  proof -
    have "real ms < 2 ^ 52" using ms by (metis of_nat_less_iff of_nat_numeral of_nat_power)
    then show ?thesis by simp
  qed
  have "secs * 1000 - real ms = (secs - real ms / 1000) * 1000" by (simp add: algebra_simps)
  then have "\<bar>secs * 1000 - real ms\<bar> = \<bar>(secs - real ms / 1000) * 1000\<bar>"
    by (simp only:)
  also have "\<dots> = \<bar>secs - real ms / 1000\<bar> * \<bar>1000\<bar>" by (rule abs_mult)
  finally have "\<bar>secs * 1000 - real ms\<bar> = \<bar>secs - real ms / 1000\<bar> * 1000" by simp
  also have "\<dots> \<le> real ms / 1000 / 2 ^ 53 * 1000" using err by simp
  also have "\<dots> = real ms / 2 ^ 53" by simp
  finally have d: "\<bar>secs * 1000 - real ms\<bar> \<le> real ms / 2 ^ 53" .
  have "real ms / 2 ^ 53 \<le> real ms" by (simp add: divide_le_eq)
  with d have "0 \<le> secs * 1000" by linarith
  then have nn: "0 \<le> secs" by simp
  then show "\<not> secs < 0" by simp
  from d b have "real ms \<le> secs * 1000 + 1 / 2" "secs * 1000 + 1 / 2 < real ms + 1" by linarith+
  then have "\<lfloor>secs * 1000 + 1 / 2\<rfloor> = int ms" by (simp add: floor_unique)
  with nn show "nat \<lfloor>\<bar>secs\<bar> * 10 ^ 3 + 1 / 2\<rfloor> = ms" by simp
qed

lemma toFixed3_pos:
  assumes "\<not> x < 0"
  shows "toFixed 3 x =
     (let m = dec (nat \<lfloor>\<bar>x\<bar> * 10 ^ 3 + 1 / 2\<rfloor>);
          m' = replicate (4 - length m) 0x30 @ m
      in take (length m' - 3) m' @ js ''.'' @ drop (length m' - 3) m')"
  using assms by (simp add: toFixed_def Let_def)

lemma length_digits3 [simp]: "length (digits3 m) = 3"
  by (simp add: digits3_def)

lemma split_digits:
  "take (length (a @ digits3 b) - 3) (a @ digits3 b) @ js ''.'' @ drop (length (a @ digits3 b) - 3) (a @ digits3 b)
   = a @ js ''.'' @ digits3 b"
  by simp

lemma toFixed3_render:
  assumes x: "\<not> x < 0" and n: "nat \<lfloor>\<bar>x\<bar> * 10 ^ 3 + 1 / 2\<rfloor> = ms"
  shows "toFixed 3 x = dec (ms div 1000) @ js ''.'' @ digits3 (ms mod 1000)"
proof (cases "ms < 1000")
  case True
  then have p: "replicate (4 - length (dec ms)) 0x30 @ dec ms = [0x30] @ digits3 ms"
    by (simp add: dec_lt_1000)
  have "dec (ms div 1000) = [0x30]" using True by (simp add: dec_small)
  then show ?thesis
    using True split_digits [of "[0x30]" ms]
    by (simp only: toFixed3_pos [OF x] n Let_def p) simp
next
  case False
  then have g: "dec ms = dec (ms div 1000) @ digits3 (ms mod 1000)"
    by (simp add: dec_ge_1000)
  then have "4 \<le> length (dec ms)" 
    using dec_step [of "ms div 1000"] dec_small [of "ms div 1000"]
    by (cases "ms div 1000 < 10") auto
  then have p: "replicate (4 - length (dec ms)) 0x30 @ dec ms = dec (ms div 1000) @ digits3 (ms mod 1000)"
    by (simp add: g)
  show ?thesis
    using split_digits [of "dec (ms div 1000)" "ms mod 1000"]
    by (simp only: toFixed3_pos [OF x] n Let_def p)
qed

lemma digit16: "d < 10 \<Longrightarrow> is_digit (of_nat (0x30 + d)) \<and> digit_value (of_nat (0x30 + d)) = d"
proof -
  assume d: "d < 10"
  have "unat (of_nat (0x30 + d) :: jschar) = (0x30 + d) mod 2 ^ LENGTH(16)"
    by (rule unat_of_nat)
  then have u: "unat (of_nat (0x30 + d) :: jschar) = 0x30 + d"
    using d by simp
  have "(0x30 :: jschar) \<le> of_nat (0x30 + d)" "(of_nat (0x30 + d) :: jschar) \<le> 0x39"
    using d u by (simp_all add: word_le_nat_alt)
  then show ?thesis using u by (simp add: is_digit_def digit_value_def)
qed

lemma decimal_value_snoc: "decimal_value (s @ [u]) = 10 * decimal_value s + digit_value u"
  by (simp add: decimal_value_def)

lemma dec_digits: "list_all is_digit (dec n) \<and> decimal_value (dec n) = n \<and> dec n \<noteq> []"
proof (induction n rule: dec.induct)
  case (1 n)
  show ?case
  proof (cases "n < 10")
    case True
    then show ?thesis using digit16 [of n] by (simp add: dec_small decimal_value_def)
  next
    case False
    then have s: "dec n = dec (n div 10) @ [of_nat (0x30 + n mod 10)]" by (simp add: dec_step)
    have "n mod 10 < 10" by simp
    from digit16 [OF this] 1 [OF False] show ?thesis
      by (simp add: s decimal_value_snoc)
  qed
qed

lemma decimal_value3: "decimal_value [a, b, c] = 10 * (10 * digit_value a + digit_value b) + digit_value c"
  by (simp add: decimal_value_def)

lemma three_digits: "10 * (10 * (m div 100) + m div 10 mod 10) + m mod 10 = (m :: nat)"
proof -
  have "m div 100 = m div 10 div 10" by (simp add: div_mult2_eq [symmetric])
  then have "10 * (m div 100) + m div 10 mod 10 = m div 10" by simp
  then show ?thesis by simp
qed

lemma digits3_digits:
  assumes "m < 1000"
  shows "list_all is_digit (digits3 m) \<and> decimal_value (digits3 m) = m"
proof -
  have a: "m div 100 < 10" using assms by simp
  have b: "m div 10 mod 10 < 10" and c: "m mod 10 < 10" by simp_all
  note da = digit16 [OF a] and db = digit16 [OF b] and dc = digit16 [OF c]
  have "list_all is_digit (digits3 m)"
    unfolding digits3_def
    by (simp only: list.pred_inject da [THEN conjunct1] db [THEN conjunct1]
        dc [THEN conjunct1] simp_thms)
  moreover have "decimal_value (digits3 m) = m"
    unfolding digits3_def decimal_value3
    by (simp only: da [THEN conjunct2] db [THEN conjunct2] dc [THEN conjunct2] three_digits)
  ultimately show ?thesis by simp
qed

lemma ms_split_real: "real (ms div 1000) + real (ms mod 1000) / 1000 = real ms / 1000"
proof -
  have "real ms = real (ms div 1000 * 1000 + ms mod 1000)" by simp
  then show ?thesis by (simp only: of_nat_add of_nat_mult) (simp add: field_simps)
qed

lemma parse_render:
  "parse_decimal (dec (ms div 1000) @ js ''.'' @ digits3 (ms mod 1000)) = Some (real ms / 1000)"
proof -
  let ?ip = "dec (ms div 1000)" and ?fp = "digits3 (ms mod 1000)"
  have dot: "\<not> is_digit 0x2E" by (simp add: is_digit_def)
  have ip: "list_all is_digit ?ip" "decimal_value ?ip = ms div 1000" "?ip \<noteq> []"
    using dec_digits [of "ms div 1000"] by simp_all
  have fp: "list_all is_digit ?fp" "decimal_value ?fp = ms mod 1000"
    using digits3_digits [of "ms mod 1000"] by simp_all
  have tw: "takeWhile is_digit (?ip @ js ''.'' @ ?fp) = ?ip"
    using ip(1) dot by (simp add: takeWhile_append2 list_all_iff js_def)
  have fpne: "?fp \<noteq> []" by (simp add: digits3_def)
  have d1: "drop (length ?ip) (?ip @ js ''.'' @ ?fp) = js ''.'' @ ?fp" by simp
  have d2: "drop (length ?ip + 1) (?ip @ js ''.'' @ ?fp) = ?fp" by (simp add: js_def)
  show ?thesis
    unfolding parse_decimal_def Let_def tw d1 d2
    using ip fp fpne ms_split_real [of ms] by simp
qed

lemma headers_eq:
  "opt_headers (requestOptions c secs st options)
     = spread2 (Request_headers c st secs) (or_empty (headers options))"
  by (simp add: requestOptions_def Let_def)

lemma map_add_case: "(m ++ n) k = (case n k of Some v \<Rightarrow> Some v | None \<Rightarrow> m k)"
  by (simp add: map_add_def split: option.splits)

lemma hdr_claim:
  "map_of (Request_headers c st secs) (js ''X-IG-WWW-Claim'') = Some (js ''0'')"
  by (simp add: Request_headers_def)

lemma hdr_time:
  "map_of (Request_headers c st secs) (js ''X-Pigeon-Rawclienttime'') = Some (toFixed 3 secs)"
  by (simp add: Request_headers_def)

lemma hdr_indep:
  "Request_headers c (st\<lparr>igWWWClaim := v\<rparr>) secs = Request_headers c st secs"
  by (simp add: Request_headers_def getCookieValue_def)

text \<open>The first example of FIPS 180-4 and some UTF-8 encodings, as a check of the model.\<close>

lemma sha256_abc:
  "hex_encode (sha256 (utf8_encode (js ''abc'')))
     = js ''ba7816bf8f01cfea414140de5dae2223b00361a396177a9cb410ff61f20015ad''"
  by code_simp

lemma utf8_examples:
  "utf8_encode (js ''abc'') = [0x61, 0x62, 0x63]"
  "utf8_encode [0xE9] = [0xC3, 0xA9]"
  "utf8_encode [0x20AC] = [0xE2, 0x82, 0xAC]"
  "utf8_encode [0xD83D, 0xDE00] = [0xF0, 0x9F, 0x98, 0x80]"
  "utf8_encode [0xD83D, 0x41] = [0xEF, 0xBF, 0xBD, 0x41]"
  by (simp_all add: js_def utf8_unit_def utf8_code_point_def pair_code_point_def
      is_high_surrogate_def is_low_surrogate_def)

section \<open>The properties\<close>







text \<open>
  Claim C5. For each of the four tracked response headers, the response hook stores
  the value in its field of the state when the header is present as a single string,
  and leaves the field as it was when the header is absent or is an array. The hook
  is a total function: with no tracked header present the state is returned unchanged,
  an array value is ignored, and with all four present as strings the four fields hold
  exactly those values.
\<close>

theorem updateStateFromResponse_tracked_headers:
  "igWWWClaim (updateStateFromResponse st r) =
     (case map_of (res_headers r) (js ''x-ig-set-www-claim'') of
        Some (HString v) \<Rightarrow> v | _ \<Rightarrow> igWWWClaim st)
   \<and> authorization (updateStateFromResponse st r) =
     (case map_of (res_headers r) (js ''ig-set-authorization'') of
        Some (HString v) \<Rightarrow> v | _ \<Rightarrow> authorization st)
   \<and> passwordEncryptionKeyId (updateStateFromResponse st r) =
     (case map_of (res_headers r) (js ''ig-set-password-encryption-key-id'') of
        Some (HString v) \<Rightarrow> v | _ \<Rightarrow> passwordEncryptionKeyId st)
   \<and> passwordEncryptionPublicKey (updateStateFromResponse st r) =
     (case map_of (res_headers r) (js ''ig-set-password-encryption-pub-key'') of
        Some (HString v) \<Rightarrow> v | _ \<Rightarrow> passwordEncryptionPublicKey st)
   \<and> updateStateFromResponse st (r\<lparr>res_headers := []\<rparr>) = st
   \<and> updateStateFromResponse st
         (r\<lparr>res_headers := [(js ''ig-set-authorization'', HArray vs)]\<rparr>) = st
   \<and> updateStateFromResponse st
         (r\<lparr>res_headers :=
              [(js ''x-ig-set-www-claim'', HString a),
               (js ''ig-set-authorization'', HString b),
               (js ''ig-set-password-encryption-key-id'', HString k),
               (js ''ig-set-password-encryption-pub-key'', HString p)]\<rparr>)
       = st\<lparr>igWWWClaim := a, authorization := b, passwordEncryptionKeyId := k,
            passwordEncryptionPublicKey := p\<rparr>"
  by (simp add: updateStateFromResponse_eq)


text \<open>
  Claim C7, as the code has it. \<^verbatim>\<open>send\<close> does not look at the status itself. When the
  exchange fails before a response reaches the hook, \<^verbatim>\<open>send\<close> is rejected with that
  failure and the state is not updated. When a response is delivered, the state is
  updated from its headers whatever its status, before the caller sees the outcome;
  the update does not depend on the status. The decoded body is returned when the
  status is 2xx or 304; for any other status the transport, whose \<^verbatim>\<open>throwHttpErrors\<close>
  default the constructor leaves on, rejects the call with an \<^verbatim>\<open>HTTPError\<close> that
  carries the response.
\<close>

theorem send_status_handling:
  "(net (API_URL c) (requestOptions c secs st options) (cookieJar st) = (Inr response, jar) \<longrightarrow>
      send c net secs st options =
        (if isResponseOk response then Inr (body response) else Inl (HTTPError response),
         updateStateFromResponse (st\<lparr>cookieJar := jar\<rparr>) response))
   \<and> (net (API_URL c) (requestOptions c secs st options) (cookieJar st) = (Inl reason, jar) \<longrightarrow>
      send c net secs st options = (Inl (RequestError reason), st\<lparr>cookieJar := jar\<rparr>))
   \<and> isResponseOk response =
       ((200 \<le> statusCode response \<and> statusCode response \<le> 299) \<or> statusCode response = 304)
   \<and> updateStateFromResponse st (response\<lparr>statusCode := s\<rparr>) = updateStateFromResponse st response
   \<and> afterResponse st response = (response, updateStateFromResponse st response)"
  by (simp add: send_cases isResponseOk_def updateStateFromResponse_eq afterResponse_def)

theorem send_status_handling_witness:
  "not_found_network (API_URL sample_constants)
       (requestOptions sample_constants 0 sample_state sample_options) (cookieJar sample_state)
     = (Inr not_found_response, cookieJar sample_state)
   \<and> \<not> isResponseOk not_found_response
   \<and> send sample_constants not_found_network 0 sample_state sample_options =
       (Inl (HTTPError not_found_response), sample_state\<lparr>authorization := js ''Bearer new''\<rparr>)
   \<and> send sample_constants echo_network 0 sample_state sample_options =
       (Inr (JObject (map (\<lambda>p. (fst p, JString (snd p)))
               (opt_form (requestOptions sample_constants 0 sample_state sample_options)))),
        sample_state)
   \<and> send sample_constants offline_network 0 sample_state sample_options =
       (Inl (RequestError (js ''ECONNREFUSED'')), sample_state)"
proof -
  have n: "not_found_network (API_URL sample_constants)
       (requestOptions sample_constants 0 sample_state sample_options) (cookieJar sample_state)
     = (Inr not_found_response, cookieJar sample_state)"
    by (simp add: not_found_network_def)
  have k: "\<not> isResponseOk not_found_response"
    by (simp add: isResponseOk_def not_found_response_def)
  have u: "updateStateFromResponse (sample_state\<lparr>cookieJar := cookieJar sample_state\<rparr>) not_found_response
         = sample_state\<lparr>authorization := js ''Bearer new''\<rparr>"
    by (simp add: updateStateFromResponse_eq not_found_response_def sample_state_def)
  have e: "echo_network (API_URL sample_constants)
       (requestOptions sample_constants 0 sample_state sample_options) (cookieJar sample_state)
     = (Inr \<lparr>statusCode = 200, res_headers = [],
           body = JObject (map (\<lambda>p. (fst p, JString (snd p)))
               (opt_form (requestOptions sample_constants 0 sample_state sample_options)))\<rparr>,
        cookieJar sample_state)"
    by (simp add: echo_network_def)
  from send_status_handling [of not_found_network sample_constants 0 sample_state sample_options
      not_found_response "cookieJar sample_state"] n k u
  have 1: "send sample_constants not_found_network 0 sample_state sample_options =
       (Inl (HTTPError not_found_response), sample_state\<lparr>authorization := js ''Bearer new''\<rparr>)"
    by simp
  from send_status_handling [of echo_network sample_constants 0 sample_state sample_options _
      "cookieJar sample_state"] e
  have 2: "send sample_constants echo_network 0 sample_state sample_options =
       (Inr (JObject (map (\<lambda>p. (fst p, JString (snd p)))
               (opt_form (requestOptions sample_constants 0 sample_state sample_options)))),
        sample_state)"
    by (simp add: isResponseOk_def updateStateFromResponse_eq)
  have o: "offline_network (API_URL sample_constants)
       (requestOptions sample_constants 0 sample_state sample_options) (cookieJar sample_state)
     = (Inl (js ''ECONNREFUSED''), cookieJar sample_state)"
    by (simp add: offline_network_def)
  from send_status_handling [of offline_network sample_constants 0 sample_state sample_options _
      "cookieJar sample_state" "js ''ECONNREFUSED''"] o
  have 3: "send sample_constants offline_network 0 sample_state sample_options =
       (Inl (RequestError (js ''ECONNREFUSED'')), sample_state)"
    by simp
  from n k 1 2 3 show ?thesis by simp
qed

text \<open>
  Claim C7 as it is stated, with the body returned whatever the status, fails for a
  response with status 404: \<^verbatim>\<open>send\<close> is rejected with an \<^verbatim>\<open>HTTPError\<close> and does not
  return the body.
\<close>

theorem send_status_counterexample:
  "fst (send sample_constants not_found_network 0 sample_state sample_options)
     = Inl (HTTPError not_found_response)
   \<and> fst (send sample_constants not_found_network 0 sample_state sample_options)
     \<noteq> Inr (body not_found_response)"
  by (simp add: send_cases not_found_network_def isResponseOk_def not_found_response_def)

text \<open>
  Claim C8. The getter renders the Number \<^verbatim>\<open>Date.now() / 1000\<close> of its own evaluation.
  Let \<open>ms\<close> be the reading of \<^verbatim>\<open>Date.now()\<close>, below \<open>2\<^sup>5\<^sup>2\<close>, and let \<open>secs\<close> be the
  quotient as a double, so that it differs from \<open>ms / 1000\<close> by at most the relative
  rounding error \<open>2\<^sup>-\<^sup>5\<^sup>3\<close>. Then the header \<^verbatim>\<open>X-Pigeon-Rawclienttime\<close> is the decimal
  numeral of \<open>ms div 1000\<close>, a full stop and the three digits of \<open>ms mod 1000\<close>; read
  back as a number it is \<open>ms / 1000\<close>, within one second of (in fact equal to) the time
  of the call. \<^verbatim>\<open>send\<close> puts the value of its own call into the request unless the
  caller overrides the header.
\<close>

theorem rawclienttime_header:
  assumes "ms < 2 ^ 52" and "\<bar>secs - real ms / 1000\<bar> \<le> real ms / 1000 / 2 ^ 53"
  shows "map_of (Request_headers c st secs) (js ''X-Pigeon-Rawclienttime'')
           = Some (dec (ms div 1000) @ js ''.'' @ digits3 (ms mod 1000))
         \<and> dec (ms div 1000) \<noteq> [] \<and> list_all is_digit (dec (ms div 1000))
         \<and> length (digits3 (ms mod 1000)) = 3 \<and> list_all is_digit (digits3 (ms mod 1000))
         \<and> parse_decimal (toFixed 3 secs) = Some (real ms / 1000)
         \<and> (\<exists>v. parse_decimal (toFixed 3 secs) = Some v \<and> \<bar>v - real ms / 1000\<bar> < 1)
         \<and> map_of (opt_headers (requestOptions c secs st options)) (js ''X-Pigeon-Rawclienttime'')
             = (case map_of (or_empty (headers options)) (js ''X-Pigeon-Rawclienttime'') of
                  Some w \<Rightarrow> Some w | None \<Rightarrow> Some (toFixed 3 secs))"
proof -
  have r: "toFixed 3 secs = dec (ms div 1000) @ js ''.'' @ digits3 (ms mod 1000)"
    using floor_ms [OF assms] by (simp add: toFixed3_render)
  have p: "parse_decimal (toFixed 3 secs) = Some (real ms / 1000)"
    by (simp only: r parse_render)
  have "ms mod 1000 < 1000" by simp
  note f = digits3_digits [OF this]
  note i = dec_digits [of "ms div 1000"]
  have h: "map_of (opt_headers (requestOptions c secs st options)) (js ''X-Pigeon-Rawclienttime'')
             = (case map_of (or_empty (headers options)) (js ''X-Pigeon-Rawclienttime'') of
                  Some w \<Rightarrow> Some w | None \<Rightarrow> Some (toFixed 3 secs))"
    by (simp add: headers_eq map_of_spread2 map_add_case hdr_time split: option.splits)
  have x: "\<exists>v. parse_decimal (toFixed 3 secs) = Some v \<and> \<bar>v - real ms / 1000\<bar> < 1"
    by (rule exI [of _ "real ms / 1000"]) (simp add: p)
  have m: "map_of (Request_headers c st secs) (js ''X-Pigeon-Rawclienttime'')
           = Some (dec (ms div 1000) @ js ''.'' @ digits3 (ms mod 1000))"
    by (simp only: hdr_time r)
  have l: "length (digits3 (ms mod 1000)) = 3" by simp
  from m i f l p x h show ?thesis by (intro conjI) (elim conjE, assumption)+
qed

theorem rawclienttime_header_witness:
  "(1234567 :: nat) < 2 ^ 52
   \<and> \<bar>(1234.567 :: real) - real 1234567 / 1000\<bar> \<le> real 1234567 / 1000 / 2 ^ 53
   \<and> map_of (Request_headers sample_constants sample_state 1234.567) (js ''X-Pigeon-Rawclienttime'')
       = Some (js ''1234.567'')
   \<and> parse_decimal (js ''1234.567'') = Some 1234.567"
proof -
  have a: "(1234567 :: nat) < 2 ^ 52" by simp
  have b: "\<bar>(1234.567 :: real) - real 1234567 / 1000\<bar> \<le> real 1234567 / 1000 / 2 ^ 53" by simp
  note T = rawclienttime_header [OF a b, of sample_constants sample_state sample_options]
  have d: "dec (1234567 div 1000) @ js ''.'' @ digits3 (1234567 mod 1000) = js ''1234.567''"
    by (simp add: dec_step dec_small digits3_def js_def)
  have h: "map_of (Request_headers sample_constants sample_state 1234.567)
             (js ''X-Pigeon-Rawclienttime'') = Some (js ''1234.567'')"
    using T [THEN conjunct1] by (simp only: d)
  have t: "toFixed 3 1234.567 = js ''1234.567''"
    using h by (simp only: hdr_time option.inject)
  have "parse_decimal (toFixed 3 1234.567) = Some (real 1234567 / 1000)"
    using T by (elim conjE)
  then have p: "parse_decimal (js ''1234.567'') = Some (real 1234567 / 1000)"
    by (simp only: t)
  have e: "real 1234567 / 1000 = 1234.567" by simp
  from a b h p show ?thesis by (simp only: e simp_thms)
qed

text \<open>
  Claim C9. After \<^verbatim>\<open>send\<close>, whatever the network does, the CSRF token, the device UUID,
  the device id, the pigeon session id and the user agent of the state are what they
  were before, and the cookie jar is as the transport left it: \<^verbatim>\<open>Request\<close> itself
  writes the claim token, the authorization token and the two password-encryption
  fields only. The same holds for the response hook alone.
\<close>

theorem send_writes_only_tracked_fields:
  "csrfToken (snd (send c net secs st options)) = csrfToken st
   \<and> uuid (snd (send c net secs st options)) = uuid st
   \<and> deviceId (snd (send c net secs st options)) = deviceId st
   \<and> pigeonSessionId (snd (send c net secs st options)) = pigeonSessionId st
   \<and> appUserAgent (snd (send c net secs st options)) = appUserAgent st
   \<and> cookieJar (snd (send c net secs st options)) =
       snd (net (API_URL c) (requestOptions c secs st options) (cookieJar st))
   \<and> csrfToken (updateStateFromResponse st r) = csrfToken st
   \<and> uuid (updateStateFromResponse st r) = uuid st
   \<and> deviceId (updateStateFromResponse st r) = deviceId st
   \<and> pigeonSessionId (updateStateFromResponse st r) = pigeonSessionId st
   \<and> appUserAgent (updateStateFromResponse st r) = appUserAgent st
   \<and> cookieJar (updateStateFromResponse st r) = cookieJar st"
  by (simp add: send_cases upd_frame split: prod.splits sum.splits)

text \<open>
  Claim C10. The default header \<^verbatim>\<open>X-IG-WWW-Claim\<close> is the text \<^verbatim>\<open>0\<close> for every state.
  Neither the default headers nor the request that \<^verbatim>\<open>send\<close> builds depend on the claim
  token stored in the state; in the request the header is \<^verbatim>\<open>0\<close> unless the caller
  overrides it.
\<close>

theorem www_claim_header_constant:
  "map_of (Request_headers c st secs) (js ''X-IG-WWW-Claim'') = Some (js ''0'')
   \<and> Request_headers c (st\<lparr>igWWWClaim := v\<rparr>) secs = Request_headers c st secs
   \<and> requestOptions c secs (st\<lparr>igWWWClaim := v\<rparr>) options = requestOptions c secs st options
   \<and> map_of (opt_headers (requestOptions c secs st options)) (js ''X-IG-WWW-Claim'') =
       (case map_of (or_empty (headers options)) (js ''X-IG-WWW-Claim'') of
          Some w \<Rightarrow> Some w | None \<Rightarrow> Some (js ''0''))"
proof -
  have "requestOptions c secs (st\<lparr>igWWWClaim := v\<rparr>) options = requestOptions c secs st options"
    by (simp add: requestOptions_def hdr_indep Request_data_def)
  then show ?thesis
    by (simp add: hdr_claim hdr_indep headers_eq map_of_spread2 map_add_case split: option.splits)
qed

end
